theory Spec2Isabelle
  imports Main
begin

section \<open>PasteHTML: the markup filter and the media resolver\<close>

text \<open>
  The embedding follows \<^verbatim>\<open>__init__.py\<close>. Python strings are modelled as \<^typ>\<open>string\<close>
  (code points up to 255), byte strings as lists of characters, dictionaries as
  association lists in insertion order (the order \<^verbatim>\<open>items()\<close> iterates in), exceptions as
  the left summand of a sum type.

  \<^verbatim>\<open>HTMLParser.feed\<close> belongs to Python's library: the embedding starts from the sequence of
  handler calls the tokenizer makes. Tag and attribute names arrive in lower case, an
  attribute written without a value arrives with the value \<^verbatim>\<open>None\<close>, character references
  in text and attribute values arrive already replaced.
\<close>

subsection \<open>Python values\<close>

datatype exn = AttributeError | TypeError | ValueError | KeyError | ZeroDivisionError

type_synonym bytes = "char list"

type_synonym attrs = "(string \<times> string option) list"

datatype event =
    StartTag string attrs
  | EndTag string
  | StartEndTag string attrs
  | Data string

definition dq :: string where
  "dq = [CHR 0x22]"

definition newline :: char where
  "newline = CHR 0x0A"

text \<open>Assignment to and deletion from a dictionary: a new key goes to the end, an existing
  key keeps its place.\<close>

fun setitem :: "'k \<Rightarrow> 'v \<Rightarrow> ('k \<times> 'v) list \<Rightarrow> ('k \<times> 'v) list" where
  "setitem k v [] = [(k, v)]"
| "setitem k v (p # d) = (if fst p = k then (k, v) # d else p # setitem k v d)"

definition delitem :: "'k \<Rightarrow> ('k \<times> 'v) list \<Rightarrow> ('k \<times> 'v) list" where
  "delitem k d = filter (\<lambda>p. fst p \<noteq> k) d"

definition keys :: "('k \<times> 'v) list \<Rightarrow> 'k list" where
  "keys d = map fst d"

text \<open>\<^verbatim>\<open>sep.join(xs)\<close>.\<close>

fun join :: "string \<Rightarrow> string list \<Rightarrow> string" where
  "join sep [] = []"
| "join sep [x] = x"
| "join sep (x # y # xs) = x @ sep @ join sep (y # xs)"

text \<open>\<^verbatim>\<open>"%d" % n\<close>.\<close>

fun str_nat :: "nat \<Rightarrow> string" where
  "str_nat n = (if n < 10 then [''0123456789'' ! n] else str_nat (n div 10) @ [''0123456789'' ! (n mod 10)])"

declare str_nat.simps [simp del]

definition str_int :: "int \<Rightarrow> string" where
  "str_int i = (if i < 0 then ''-'' @ str_nat (nat (- i)) else str_nat (nat i))"

text \<open>\<^verbatim>\<open>cgi.escape(s)\<close> with its default \<^verbatim>\<open>quote=None\<close>: the three replacements
  \<^verbatim>\<open>&\<close>, \<^verbatim>\<open><\<close>, \<^verbatim>\<open>>\<close>, the ampersand first; a double quote is left as it is.\<close>

definition escape_char :: "char \<Rightarrow> string" where
  "escape_char c = (if c = CHR ''&'' then ''&amp;'' else if c = CHR ''<'' then ''&lt;''
     else if c = CHR ''>'' then ''&gt;'' else [c])"

definition cgi_escape :: "string \<Rightarrow> string" where
  "cgi_escape s = concat (map escape_char s)"

subsection \<open>Whitelist tables\<close>

definition voidElements :: "string set" where
  "voidElements = {
    ''area'', ''base'', ''basefont'', ''bgsound'', ''br'', ''col'',
    ''command'', ''embed'', ''frame'', ''hr'', ''image'', ''img'', ''input'', ''isindex'',
    ''keygen'', ''link'', ''menuitem'', ''meta'', ''nextid'', ''param'', ''source'',
    ''track'', ''wbr''}"

definition ignoredTags :: "string set" where
  "ignoredTags = {''html'', ''body''}"

text \<open>The set literal of the source, and the set after \<^verbatim>\<open>_allowedTags |= _ignoredTags\<close>.\<close>

definition allowedTags_literal :: "string set" where
  "allowedTags_literal = {
    ''p'', ''h1'', ''h2'', ''h3'', ''h4'', ''h5'', ''blockquote'', ''pre'',
    ''img'', ''a'', ''span'', ''br'', ''code'',
    ''b'', ''em'', ''i'', ''u'', ''strong'',
    ''ul'', ''ol'', ''li'',
    ''div'', ''table'', ''tr'', ''td'', ''thead'', ''th'', ''tbody''}"

definition allowedTags :: "string set" where
  "allowedTags = allowedTags_literal \<union> ignoredTags"

definition allowedAttributes :: "string set" where
  "allowedAttributes = {''style'', ''src'', ''alt'', ''href'', ''title'', ''colspan'', ''rowspan''}"

definition allowedStyles :: "string set" where
  "allowedStyles = {
    ''font-weight'', ''color'', ''background-color'', ''font-style'',
    ''text-align'', ''valign'',
    ''background'', ''background-color''}"

definition overrideStyles :: "(string \<times> (string \<times> string) list) list" where
  "overrideStyles = [
    (''table'', [
        (''box-sizing'', ''border-box''),
        (''width'', ''100%''),
        (''margin'', ''.5em''),
        (''border-collapse'', ''collapse''),
        (''outline'', ''1px solid black'')]),
    (''th'', [
        (''position'', ''relative''),
        (''border'', ''1px solid black''),
        (''padding'', ''.4em''),
        (''font-size'', ''1.2em'')]),
    (''td'', [
        (''position'', ''relative''),
        (''border'', ''1px solid black''),
        (''padding'', ''.2em'')]),
    (''div'', [
        (''padding'', ''.2em'')])]"

subsection \<open>The style regular expression\<close>

text \<open>
  \<^verbatim>\<open>_styleRegex = re.compile('(.+?) *: *(.+?);')\<close>. The functions below follow the
  backtracking matcher through the pattern from right to left: each one matches the rest
  of the pattern at the head of its argument and returns what follows the match. A dot
  matches every character except the line feed. A lazy group tries the shorter match
  first, a greedy run of spaces the longer one.
\<close>

definition dot :: "char \<Rightarrow> bool" where
  "dot c \<longleftrightarrow> c \<noteq> newline"

text \<open>\<^verbatim>\<open>(.+?);\<close> with the characters of the group read so far in \<open>acc\<close>.\<close>

fun group2 :: "string \<Rightarrow> string \<Rightarrow> (string \<times> string) option" where
  "group2 acc [] = None"
| "group2 acc (c # cs) =
     (if acc \<noteq> [] \<and> c = CHR '';'' then Some (acc, cs)
      else if dot c then group2 (acc @ [c]) cs
      else None)"

text \<open>\<^verbatim>\<open> *(.+?);\<close>: take a space and go on; if that fails, give the space back.\<close>

fun spaces_group2 :: "string \<Rightarrow> (string \<times> string) option" where
  "spaces_group2 [] = None"
| "spaces_group2 (c # cs) =
     (if c = CHR '' '' then
        (case spaces_group2 cs of Some r \<Rightarrow> Some r | None \<Rightarrow> group2 [] (c # cs))
      else group2 [] (c # cs))"

text \<open>\<^verbatim>\<open>: *(.+?);\<close>\<close>

fun colon_tail :: "string \<Rightarrow> (string \<times> string) option" where
  "colon_tail [] = None"
| "colon_tail (c # cs) = (if c = CHR '':'' then spaces_group2 cs else None)"

text \<open>\<^verbatim>\<open> *: *(.+?);\<close>\<close>

fun spaces_colon_tail :: "string \<Rightarrow> (string \<times> string) option" where
  "spaces_colon_tail [] = None"
| "spaces_colon_tail (c # cs) =
     (if c = CHR '' '' then
        (case spaces_colon_tail cs of Some r \<Rightarrow> Some r | None \<Rightarrow> colon_tail (c # cs))
      else colon_tail (c # cs))"

text \<open>The whole pattern, with the characters of the first group read so far in \<open>acc\<close>.
  The result is the pair of groups and the text after the match.\<close>

fun group1 :: "string \<Rightarrow> string \<Rightarrow> ((string \<times> string) \<times> string) option" where
  "group1 acc [] = None"
| "group1 acc (c # cs) =
     (case (if acc = [] then None else spaces_colon_tail (c # cs)) of
        Some (g2, rest) \<Rightarrow> Some ((acc, g2), rest)
      | None \<Rightarrow> if dot c then group1 (acc @ [c]) cs else None)"

definition match_here :: "string \<Rightarrow> ((string \<times> string) \<times> string) option" where
  "match_here s = group1 [] s"

lemma group2_length: "group2 acc s = Some (g, rest) \<Longrightarrow> length rest < length s"
  by (induction acc s rule: group2.induct) (auto split: if_splits)

lemma spaces_group2_length: "spaces_group2 s = Some (g, rest) \<Longrightarrow> length rest < length s"
  by (induction s rule: spaces_group2.induct)
     (auto split: if_splits option.splits dest!: group2_length)

lemma colon_tail_length: "colon_tail s = Some (g, rest) \<Longrightarrow> length rest < length s"
  by (cases s) (auto split: if_splits dest!: spaces_group2_length)

lemma spaces_colon_tail_length:
  "spaces_colon_tail s = Some (g, rest) \<Longrightarrow> length rest < length s"
  by (induction s rule: spaces_colon_tail.induct)
     (auto split: if_splits option.splits dest!: spaces_group2_length)

lemma group1_length: "group1 acc s = Some (gs, rest) \<Longrightarrow> length rest < length s"
  by (induction acc s rule: group1.induct)
     (auto split: if_splits option.splits dest!: spaces_colon_tail_length spaces_group2_length)

lemma match_here_length: "match_here s = Some (gs, rest) \<Longrightarrow> length rest < length s"
  unfolding match_here_def by (rule group1_length)

text \<open>\<^verbatim>\<open>_styleRegex.findall(s)\<close>: the matches from left to right, each search starting
  where the previous match ended; a position with no match is stepped over.\<close>

function findall :: "string \<Rightarrow> (string \<times> string) list" where
  "findall [] = []"
| "findall (c # cs) =
     (case match_here (c # cs) of
        Some (gs, rest) \<Rightarrow> gs # findall rest
      | None \<Rightarrow> findall cs)"
  by pat_completeness auto
termination
  by (relation "measure length") (auto dest!: match_here_length)

subsection \<open>The blank-line pass\<close>

text \<open>
  \<^verbatim>\<open>re.sub('^\s*\n', '', data, flags=re.M)\<close>. For a \<^verbatim>\<open>str\<close> pattern \<^verbatim>\<open>\s\<close> is the
  white space of \<^verbatim>\<open>str.isspace\<close>; among the code points up to 255 these are 9 to 13,
  28 to 32, 133 and 160.
\<close>

definition isspace :: "char \<Rightarrow> bool" where
  "isspace c \<longleftrightarrow> of_char c \<in> {9, 10, 11, 12, 13, 28, 29, 30, 31, 32, 133, 160 :: nat}"

text \<open>\<^verbatim>\<open>\s*\n\<close>: the greedy run of white space gives characters back until a line feed
  follows; the result is the text after the match.\<close>

fun ws_newline :: "string \<Rightarrow> string option" where
  "ws_newline [] = None"
| "ws_newline (c # cs) =
     (if isspace c then
        (case ws_newline cs of Some r \<Rightarrow> Some r
         | None \<Rightarrow> if c = newline then Some cs else None)
      else None)"

lemma ws_newline_length: "ws_newline s = Some rest \<Longrightarrow> length rest < length s"
  by (induction s arbitrary: rest) (auto split: if_splits option.splits)

text \<open>The substitution: \<open>bol\<close> says that the position is at the start of the text or just
  after a line feed, where \<^verbatim>\<open>^\<close> matches under \<^verbatim>\<open>re.M\<close>.\<close>

function re_sub_blank :: "bool \<Rightarrow> string \<Rightarrow> string" where
  "re_sub_blank bol [] = []"
| "re_sub_blank bol (c # cs) =
     (case (if bol then ws_newline (c # cs) else None) of
        Some rest \<Rightarrow> re_sub_blank True rest
      | None \<Rightarrow> c # re_sub_blank (c = newline) cs)"
  by pat_completeness auto
termination
  by (relation "measure (\<lambda>(bol, s). length s)") (auto split: if_splits simp del: ws_newline.simps dest!: ws_newline_length)

subsection \<open>The environment\<close>

text \<open>
  What the code reaches through \<^verbatim>\<open>editor\<close>, the file system, the network and Qt is a
  record of functions. \<^verbatim>\<open>urlopen\<close> raises \<^verbatim>\<open>URLError\<close>, raises something else, or opens a
  response; of a response the model keeps the outcome of
  \<^verbatim>\<open>int(response.info().getheader('Content-Length').strip())\<close> and the chunks that the
  successive \<^verbatim>\<open>response.read(16384)\<close> return.
\<close>

datatype response = Response (content_length: "exn + int") (body: "bytes list")

datatype fetch = URLError | Raises exn | Opened response

record 'img environment =
  open_rb :: "string \<Rightarrow> bytes option"
  urlopen :: "string \<Rightarrow> fetch"
  fromData :: "bytes \<Rightarrow> 'img"
  cacheKey :: "'img \<Rightarrow> int"
  namedtmp :: "string \<Rightarrow> string"
  pastePNG :: bool
  im_save :: "'img \<Rightarrow> string \<Rightarrow> int \<Rightarrow> bytes option"
  path_exists :: "string \<Rightarrow> bool"
  addFile :: "string \<Rightarrow> string"

text \<open>
  \<open>open_rb path\<close> is \<^verbatim>\<open>open(path, 'rb').read()\<close>, \<open>None\<close> for an \<^verbatim>\<open>OSError\<close>.
  \<open>im_save im ext quality\<close> is the content \<^verbatim>\<open>im.save(uname + ext, None, quality)\<close> writes,
  \<open>None\<close> when it writes no file. \<open>path_exists\<close> tells which paths exist before the call.
\<close>

subsection \<open>Media resolution\<close>

definition startswith :: "string \<Rightarrow> string \<Rightarrow> bool" where
  "startswith s p \<longleftrightarrow> take (length p) s = p"

definition isalpha_ascii :: "char \<Rightarrow> bool" where
  "isalpha_ascii c \<longleftrightarrow>
     (let n = (of_char c :: nat) in (65 \<le> n \<and> n \<le> 90) \<or> (97 \<le> n \<and> n \<le> 122))"

text \<open>\<^verbatim>\<open>re.match(r'^/[A-Za-z]:\\', url)\<close>\<close>

fun drive_prefix :: "string \<Rightarrow> bool" where
  "drive_prefix (a # b # c # d # _) =
     (a = CHR ''/'' \<and> isalpha_ascii b \<and> c = CHR '':'' \<and> d = CHR 0x5C)"
| "drive_prefix _ = False"

text \<open>The path the \<^verbatim>\<open>file://\<close> branch opens.\<close>

definition local_path :: "string \<Rightarrow> string" where
  "local_path url = (let u = drop 7 url in if drive_prefix u then drop 1 u else u)"

text \<open>The \<^verbatim>\<open>while True\<close> loop over the chunks: an empty chunk ends it; after any other
  chunk the progress \<^verbatim>\<open>currentRead * 100.0 / totSize\<close> is computed, which raises for a
  total of zero.\<close>

fun read_chunks :: "int \<Rightarrow> bytes list \<Rightarrow> exn + bytes list" where
  "read_chunks totSize [] = Inr []"
| "read_chunks totSize (chunk # later) =
     (if chunk = [] then Inr []
      else if totSize = 0 then Inl ZeroDivisionError
      else (case read_chunks totSize later of
              Inl e \<Rightarrow> Inl e
            | Inr chunks \<Rightarrow> Inr (chunk # chunks)))"

text \<open>The download proper. \<^verbatim>\<open>''.join(chunks)\<close> of byte strings raises \<^verbatim>\<open>TypeError\<close>
  unless the list is empty, when it is the empty string.\<close>

definition download :: "'img environment \<Rightarrow> string \<Rightarrow> exn + bytes option" where
  "download env url =
     (case urlopen env url of
        URLError \<Rightarrow> Inr None
      | Raises e \<Rightarrow> Inl e
      | Opened r \<Rightarrow>
          (case content_length r of
             Inl e \<Rightarrow> Inl e
           | Inr totSize \<Rightarrow>
               (case read_chunks totSize (body r) of
                  Inl e \<Rightarrow> Inl e
                | Inr chunks \<Rightarrow> if chunks = [] then Inr (Some []) else Inl TypeError)))"

definition downloadMedia :: "'img environment \<Rightarrow> string \<Rightarrow> exn + bytes option" where
  "downloadMedia env url =
     (if startswith url ''file://'' then
        (case open_rb env (local_path url) of
           Some content \<Rightarrow> Inr (Some content)
         | None \<Rightarrow> download env (local_path url))
      else download env url)"

text \<open>The name of the temporary file, whose stem carries the key, and the stored file.\<close>

definition uname :: "'img environment \<Rightarrow> bytes \<Rightarrow> string" where
  "uname env imageData =
     namedtmp env (''pasteHTML-'' @ str_int (cacheKey env (fromData env imageData)))"

definition SaveImageToMedia :: "'img environment \<Rightarrow> bytes \<Rightarrow> string" where
  "SaveImageToMedia env imageData =
     (let im = fromData env imageData;
          ext = (if pastePNG env then ''.png'' else ''.jpg'');
          written = (if pastePNG env then im_save env im ext 50 else im_save env im ext 80)
      in if \<not> (written \<noteq> None \<or> path_exists env (uname env imageData @ ext)) then []
         else addFile env (uname env imageData @ ext))"

subsection \<open>The parser state and its handlers\<close>

record NonFormatTagCleaner =
  nonAllowedTagCountInStack :: int
  "output" :: "string list"
  tagStack :: "string list"
  parseError :: bool

text \<open>The state after \<^verbatim>\<open>__init__\<close>.\<close>

definition init :: NonFormatTagCleaner where
  "init = \<lparr>nonAllowedTagCountInStack = 0, output = [], tagStack = [], parseError = False\<rparr>"

definition writeData :: "string \<Rightarrow> NonFormatTagCleaner \<Rightarrow> NonFormatTagCleaner" where
  "writeData data self =
     (if nonAllowedTagCountInStack self = 0 then self\<lparr>output := output self @ [data]\<rparr>
      else self)"

text \<open>The first lines of \<^verbatim>\<open>handle_starttag\<close>: the push and the count.\<close>

definition push_tag :: "string \<Rightarrow> NonFormatTagCleaner \<Rightarrow> NonFormatTagCleaner" where
  "push_tag tag self =
     (if tag \<notin> voidElements then
        self\<lparr>tagStack := tagStack self @ [tag],
             nonAllowedTagCountInStack :=
               (if tag \<notin> allowedTags then nonAllowedTagCountInStack self + 1
                else nonAllowedTagCountInStack self)\<rparr>
      else self)"

text \<open>\<^verbatim>\<open># Parse attributes\<close>\<close>

definition parse_attributes :: "attrs \<Rightarrow> attrs" where
  "parse_attributes attributes =
     fold (\<lambda>(k, v) attrDict. if k \<in> allowedAttributes then setitem k v attrDict else attrDict)
       attributes [(''style'', Some [])]"

text \<open>\<^verbatim>\<open># Parse styles\<close>\<close>

definition parse_styles :: "string \<Rightarrow> (string \<times> string) list" where
  "parse_styles raw =
     fold (\<lambda>(k, v) styleDict. if k \<in> allowedStyles then setitem k v styleDict else styleDict)
       (findall raw) []"

text \<open>\<^verbatim>\<open># Override styles\<close>\<close>

definition override_styles :: "string \<Rightarrow> (string \<times> string) list \<Rightarrow> (string \<times> string) list" where
  "override_styles tag styleDict =
     (case map_of overrideStyles tag of
        Some forced \<Rightarrow> fold (\<lambda>(k, v) d. setitem k v d) forced styleDict
      | None \<Rightarrow> styleDict)"

definition style_string :: "(string \<times> string) list \<Rightarrow> string" where
  "style_string styleDict = concat (map (\<lambda>(k, v). k @ '':'' @ v @ '';'') styleDict)"

text \<open>The attribute dictionary up to \<^verbatim>\<open>del attrDict['style']\<close>. A \<^verbatim>\<open>style\<close> attribute without
  a value makes \<^verbatim>\<open>findall(None)\<close> raise.\<close>

definition styled_attributes :: "string \<Rightarrow> attrs \<Rightarrow> exn + attrs" where
  "styled_attributes tag attributes =
     (let attrDict = parse_attributes attributes in
      case map_of attrDict ''style'' of
        None \<Rightarrow> Inl KeyError
      | Some None \<Rightarrow> Inl TypeError
      | Some (Some raw) \<Rightarrow>
          (let styleDict = override_styles tag (parse_styles raw) in
           if styleDict \<noteq> [] then Inr (setitem ''style'' (Some (style_string styleDict)) attrDict)
           else Inr (delitem ''style'' attrDict)))"

text \<open>\<^verbatim>\<open># Special cure for images\<close>: the dictionary after it and the tooltips shown.
  \<^verbatim>\<open>if imageData\<close> holds for a byte string that is not empty.\<close>

definition image_cure :: "'img environment \<Rightarrow> string \<Rightarrow> attrs \<Rightarrow> exn + (attrs \<times> string list)" where
  "image_cure env tag attrDict =
     (if tag = ''img'' \<and> ''src'' \<in> set (keys attrDict) then
        (case map_of attrDict ''src'' of
           None \<Rightarrow> Inl KeyError
         | Some None \<Rightarrow> Inl AttributeError
         | Some (Some imageUrl) \<Rightarrow>
             (case downloadMedia env imageUrl of
                Inl e \<Rightarrow> Inl e
              | Inr imageData \<Rightarrow>
                  (case imageData of
                     Some (b # bs) \<Rightarrow>
                       Inr (setitem ''src'' (Some (SaveImageToMedia env (b # bs))) attrDict, [])
                   | _ \<Rightarrow> Inr (attrDict, [''Failed to download '' @ imageUrl]))))
      else Inr (attrDict, []))"

text \<open>The items \<^verbatim>\<open>'%s="%s"' % (k, cgi.escape(v))\<close>; \<^verbatim>\<open>cgi.escape(None)\<close> raises.\<close>

fun attr_items :: "attrs \<Rightarrow> exn + string list" where
  "attr_items [] = Inr []"
| "attr_items ((k, v) # attrDict) =
     (case v of
        None \<Rightarrow> Inl AttributeError
      | Some s \<Rightarrow>
          (case attr_items attrDict of
             Inl e \<Rightarrow> Inl e
           | Inr items \<Rightarrow> Inr ((k @ ''='' @ dq @ cgi_escape s @ dq) # items)))"

definition attrStr :: "attrs \<Rightarrow> exn + string" where
  "attrStr attrDict =
     (if attrDict \<noteq> [] then
        (case attr_items attrDict of Inl e \<Rightarrow> Inl e | Inr items \<Rightarrow> Inr ('' '' @ join '' '' items))
      else Inr [])"

text \<open>The text of the start tag and the tooltips shown on the way; neither depends on
  the parser state.\<close>

definition starttag_text :: "'img environment \<Rightarrow> string \<Rightarrow> attrs \<Rightarrow> exn + (string \<times> string list)" where
  "starttag_text env tag attributes =
     (case styled_attributes tag attributes of
        Inl e \<Rightarrow> Inl e
      | Inr attrDict \<Rightarrow>
          (case image_cure env tag attrDict of
             Inl e \<Rightarrow> Inl e
           | Inr (attrDict', tips) \<Rightarrow>
               (case attrStr attrDict' of
                  Inl e \<Rightarrow> Inl e
                | Inr s \<Rightarrow> Inr (''<'' @ tag @ s @ ''>'', tips))))"

definition handle_starttag ::
  "'img environment \<Rightarrow> string \<Rightarrow> attrs \<Rightarrow> NonFormatTagCleaner \<Rightarrow> exn + (NonFormatTagCleaner \<times> string list)" where
  "handle_starttag env tag attributes self =
     (if tag \<in> ignoredTags then Inr (push_tag tag self, [])
      else
        (case starttag_text env tag attributes of
           Inl e \<Rightarrow> Inl e
         | Inr (text, tips) \<Rightarrow> Inr (writeData text (push_tag tag self), tips)))"

text \<open>The \<^verbatim>\<open>while\<close> loop of \<^verbatim>\<open>handle_endtag\<close>.\<close>

function pop_unmatched :: "string \<Rightarrow> NonFormatTagCleaner \<Rightarrow> NonFormatTagCleaner" where
  "pop_unmatched tag self =
     (if tagStack self \<noteq> [] \<and> last (tagStack self) \<noteq> tag then
        pop_unmatched tag (self\<lparr>tagStack := butlast (tagStack self), parseError := True\<rparr>)
      else self)"
  by pat_completeness auto
termination
  by (relation "measure (\<lambda>(tag, self). length (tagStack self))") auto

declare pop_unmatched.simps [simp del]

definition handle_endtag :: "string \<Rightarrow> NonFormatTagCleaner \<Rightarrow> NonFormatTagCleaner" where
  "handle_endtag tag self =
     (if tag \<in> voidElements then self
      else
        (let s1 = pop_unmatched tag self;
             s2 = (if tagStack s1 \<noteq> [] then s1\<lparr>tagStack := butlast (tagStack s1)\<rparr> else s1)
         in if tag \<in> allowedTags then
              (if tag \<notin> ignoredTags then writeData (''</'' @ tag @ ''>'') s2 else s2)
            else s2\<lparr>nonAllowedTagCountInStack := nonAllowedTagCountInStack s2 - 1\<rparr>))"

definition handle_data :: "string \<Rightarrow> NonFormatTagCleaner \<Rightarrow> NonFormatTagCleaner" where
  "handle_data data self = writeData data self"

definition flush :: "NonFormatTagCleaner \<Rightarrow> string" where
  "flush self = concat (output self)"

text \<open>One handler call. \<^verbatim>\<open>HTMLParser.handle_startendtag\<close>, which the class inherits, calls
  \<^verbatim>\<open>handle_starttag\<close> and then \<^verbatim>\<open>handle_endtag\<close>.\<close>

fun handle ::
  "'img environment \<Rightarrow> event \<Rightarrow> NonFormatTagCleaner \<Rightarrow> exn + (NonFormatTagCleaner \<times> string list)" where
  "handle env (StartTag tag attributes) self = handle_starttag env tag attributes self"
| "handle env (EndTag tag) self = Inr (handle_endtag tag self, [])"
| "handle env (StartEndTag tag attributes) self =
     (case handle_starttag env tag attributes self of
        Inl e \<Rightarrow> Inl e
      | Inr (self', tips) \<Rightarrow> Inr (handle_endtag tag self', tips))"
| "handle env (Data data) self = Inr (handle_data data self, [])"

text \<open>\<^verbatim>\<open>parser.feed(data)\<close> as the run of the handlers over the events; the first exception
  ends it.\<close>

fun feed ::
  "'img environment \<Rightarrow> event list \<Rightarrow> NonFormatTagCleaner \<Rightarrow> exn + (NonFormatTagCleaner \<times> string list)" where
  "feed env [] self = Inr (self, [])"
| "feed env (e # es) self =
     (case handle env e self of
        Inl x \<Rightarrow> Inl x
      | Inr (self', tips) \<Rightarrow>
          (case feed env es self' of
             Inl x \<Rightarrow> Inl x
           | Inr (self'', tips') \<Rightarrow> Inr (self'', tips @ tips')))"

definition cleanTag :: "'img environment \<Rightarrow> event list \<Rightarrow> exn + string" where
  "cleanTag env events =
     (case feed env events init of
        Inl x \<Rightarrow> Inl x
      | Inr (parser, tips) \<Rightarrow> Inr (re_sub_blank True (flush parser)))"

text \<open>An environment in which no file can be read, no URL reached and no image saved.\<close>

definition offline :: "nat environment" where
  "offline = \<lparr>open_rb = (\<lambda>path. None), urlopen = (\<lambda>url. URLError), fromData = length,
     cacheKey = int, namedtmp = (\<lambda>name. ''/tmp/'' @ name), pastePNG = False,
     im_save = (\<lambda>im ext quality. None), path_exists = (\<lambda>path. False),
     addFile = (\<lambda>path. path)\<rparr>"

text \<open>An environment whose images are their bytes, whose key is the number of bytes and
  whose encoder drops the spaces: two byte strings can encode to one content under two
  keys.\<close>

definition recoding :: "bytes environment" where
  "recoding = \<lparr>open_rb = (\<lambda>path. None), urlopen = (\<lambda>url. URLError), fromData = (\<lambda>imageData. imageData),
     cacheKey = (\<lambda>im. int (length im)), namedtmp = (\<lambda>name. ''/tmp/'' @ name), pastePNG = False,
     im_save = (\<lambda>im ext quality. Some (filter (\<lambda>c. c \<noteq> CHR '' '') im)),
     path_exists = (\<lambda>path. False), addFile = (\<lambda>path. path)\<rparr>"

subsection \<open>Notions the properties are stated with\<close>

text \<open>A tag whose start tag raises the counter and whose end tag lowers it.\<close>

definition counted :: "string \<Rightarrow> bool" where
  "counted tag \<longleftrightarrow> tag \<notin> voidElements \<and> tag \<notin> allowedTags"



text \<open>What an event adds to the counter, and what a sequence of events adds.\<close>

fun delta :: "event \<Rightarrow> int" where
  "delta (StartTag tag attributes) = (if counted tag then 1 else 0)"
| "delta (EndTag tag) = (if counted tag then - 1 else 0)"
| "delta (StartEndTag tag attributes) = 0"
| "delta (Data data) = 0"

definition depth :: "event list \<Rightarrow> int" where
  "depth events = sum_list (map delta events)"

text \<open>Well-formed markup: every end tag of a non-void element closes the element opened
  last, and nothing stays open. \<open>opened\<close> lists the open elements, the innermost last.\<close>

fun nesting :: "string list \<Rightarrow> event list \<Rightarrow> bool" where
  "nesting opened [] = (opened = [])"
| "nesting opened (Data data # events) = nesting opened events"
| "nesting opened (StartTag tag attributes # events) =
     nesting (if tag \<in> voidElements then opened else opened @ [tag]) events"
| "nesting opened (StartEndTag tag attributes # events) = nesting opened events"
| "nesting opened (EndTag tag # events) =
     (if tag \<in> voidElements then nesting opened events
      else opened \<noteq> [] \<and> last opened = tag \<and> nesting (butlast opened) events)"

definition well_formed :: "event list \<Rightarrow> bool" where
  "well_formed events = nesting [] events"

definition counted_in :: "string list \<Rightarrow> int" where
  "counted_in opened = int (length (filter counted opened))"

text \<open>A style declaration written as property, spaces, colon, spaces, value, semicolon:
  the property has no colon, space or line feed; the value is not empty, does not start
  with a space and has no semicolon or line feed.\<close>

definition plain_property :: "string \<Rightarrow> bool" where
  "plain_property k \<longleftrightarrow>
     k \<noteq> [] \<and> (\<forall>c \<in> set k. c \<noteq> CHR '':'' \<and> c \<noteq> CHR '' '' \<and> c \<noteq> newline)"

definition plain_value :: "string \<Rightarrow> bool" where
  "plain_value v \<longleftrightarrow>
     v \<noteq> [] \<and> hd v \<noteq> CHR '' '' \<and> (\<forall>c \<in> set v. c \<noteq> CHR '';'' \<and> c \<noteq> newline)"

fun css_text :: "string \<times> nat \<times> nat \<times> string \<Rightarrow> string" where
  "css_text (k, m, n, v) = k @ replicate m CHR '' '' @ '':'' @ replicate n CHR '' '' @ v @ '';''"

fun css_pair :: "string \<times> nat \<times> nat \<times> string \<Rightarrow> string \<times> string" where
  "css_pair (k, m, n, v) = (k, v)"

section \<open>Properties\<close>

lemmas table_defs = voidElements_def allowedTags_def allowedTags_literal_def ignoredTags_def
  allowedAttributes_def allowedStyles_def overrideStyles_def

lemmas handler_defs = handle_starttag_def handle_endtag_def handle_data_def writeData_def
  push_tag_def starttag_text_def styled_attributes_def parse_attributes_def parse_styles_def
  override_styles_def image_cure_def attrStr_def style_string_def delitem_def keys_def flush_def
  init_def cleanTag_def match_here_def dot_def newline_def dq_def isspace_def cgi_escape_def
  escape_char_def

subsection \<open>Runs on the inputs the specification names\<close>

lemma pop_unmatched_tagStack:
  "tagStack (pop_unmatched tag self) = rev (dropWhile (\<lambda>t. t \<noteq> tag) (rev (tagStack self)))"
proof (induction tag self rule: pop_unmatched.induct)
  case (1 tag self)
  show ?case
  proof (cases "tagStack self \<noteq> [] \<and> last (tagStack self) \<noteq> tag")
    case True
    then obtain xs x where s: "tagStack self = xs @ [x]" and x: "x \<noteq> tag"
      by (cases "tagStack self" rule: rev_cases) auto
    from "1.IH" [OF True] s x show ?thesis
      by (subst pop_unmatched.simps) (simp add: True)
  next
    case False
    then show ?thesis
      by (subst pop_unmatched.simps) (cases "tagStack self" rule: rev_cases, auto)
  qed
qed

lemma pop_unmatched_parseError:
  "parseError (pop_unmatched tag self)
     = (parseError self \<or> (tagStack self \<noteq> [] \<and> last (tagStack self) \<noteq> tag))"
proof (induction tag self rule: pop_unmatched.induct)
  case (1 tag self)
  show ?case
  proof (cases "tagStack self \<noteq> [] \<and> last (tagStack self) \<noteq> tag")
    case True
    from "1.IH" [OF True] True show ?thesis
      by (subst pop_unmatched.simps) simp
  next
    case False
    then show ?thesis
      by (subst pop_unmatched.simps) auto
  qed
qed

lemma pop_unmatched_fields [simp]:
  "nonAllowedTagCountInStack (pop_unmatched tag self) = nonAllowedTagCountInStack self"
  "output (pop_unmatched tag self) = output self"
  by (induction tag self rule: pop_unmatched.induct; subst pop_unmatched.simps; simp)+

text \<open>
  C7. Malformed-tag recovery. For \<^verbatim>\<open><b><i>text</b></i>\<close> the tokenizer calls the handlers
  with the five events below, and no call raises. After the text the stack holds \<^verbatim>\<open>b\<close> and
  \<^verbatim>\<open>i\<close>. The loop of \<^verbatim>\<open>handle_endtag\<close> for \<^verbatim>\<open></b>\<close> discards the entry \<^verbatim>\<open>i\<close> above \<^verbatim>\<open>b\<close> and
  sets \<^verbatim>\<open>parseError\<close>; the handler then pops \<^verbatim>\<open>b\<close> and writes \<^verbatim>\<open></b>\<close>, so the stack is empty
  when \<^verbatim>\<open></i>\<close> arrives, which is written as well. The output holds \<^verbatim>\<open>text\<close> once, then
  \<^verbatim>\<open></b>\<close> and \<^verbatim>\<open></i>\<close> in the order of the input; the discarded entry leaves no trace but
  \<^verbatim>\<open>parseError = True\<close>. In general the loop discards the entries above the innermost
  entry for the tag (all entries when there is none), sets \<^verbatim>\<open>parseError\<close> exactly when it
  discards one, and touches neither the output nor the counter.
\<close>

theorem malformed_tag_recovery:
  "feed env [StartTag ''b'' [], StartTag ''i'' [], Data ''text''] init
     = Inr (\<lparr>nonAllowedTagCountInStack = 0, output = [''<b>'', ''<i>'', ''text''],
              tagStack = [''b'', ''i''], parseError = False\<rparr>, [])
   \<and> pop_unmatched ''b''
       \<lparr>nonAllowedTagCountInStack = 0, output = [''<b>'', ''<i>'', ''text''],
        tagStack = [''b'', ''i''], parseError = False\<rparr>
     = \<lparr>nonAllowedTagCountInStack = 0, output = [''<b>'', ''<i>'', ''text''],
        tagStack = [''b''], parseError = True\<rparr>
   \<and> feed env [StartTag ''b'' [], StartTag ''i'' [], Data ''text'', EndTag ''b''] init
     = Inr (\<lparr>nonAllowedTagCountInStack = 0, output = [''<b>'', ''<i>'', ''text'', ''</b>''],
              tagStack = [], parseError = True\<rparr>, [])
   \<and> feed env [StartTag ''b'' [], StartTag ''i'' [], Data ''text'', EndTag ''b'', EndTag ''i''] init
     = Inr (\<lparr>nonAllowedTagCountInStack = 0,
              output = [''<b>'', ''<i>'', ''text'', ''</b>'', ''</i>''],
              tagStack = [], parseError = True\<rparr>, [])
   \<and> cleanTag env [StartTag ''b'' [], StartTag ''i'' [], Data ''text'', EndTag ''b'', EndTag ''i'']
     = Inr ''<b><i>text</b></i>''
   \<and> tagStack (pop_unmatched tag self) = rev (dropWhile (\<lambda>t. t \<noteq> tag) (rev (tagStack self)))
   \<and> parseError (pop_unmatched tag self)
     = (parseError self \<or> (tagStack self \<noteq> [] \<and> last (tagStack self) \<noteq> tag))
   \<and> output (pop_unmatched tag self) = output self
   \<and> nonAllowedTagCountInStack (pop_unmatched tag self) = nonAllowedTagCountInStack self"
proof -
  have run: "feed env [StartTag ''b'' [], StartTag ''i'' [], Data ''text''] init
     = Inr (\<lparr>nonAllowedTagCountInStack = 0, output = [''<b>'', ''<i>'', ''text''],
              tagStack = [''b'', ''i''], parseError = False\<rparr>, [])"
    "pop_unmatched ''b''
       \<lparr>nonAllowedTagCountInStack = 0, output = [''<b>'', ''<i>'', ''text''],
        tagStack = [''b'', ''i''], parseError = False\<rparr>
     = \<lparr>nonAllowedTagCountInStack = 0, output = [''<b>'', ''<i>'', ''text''],
        tagStack = [''b''], parseError = True\<rparr>"
    "feed env [StartTag ''b'' [], StartTag ''i'' [], Data ''text'', EndTag ''b''] init
     = Inr (\<lparr>nonAllowedTagCountInStack = 0, output = [''<b>'', ''<i>'', ''text'', ''</b>''],
              tagStack = [], parseError = True\<rparr>, [])"
    "feed env [StartTag ''b'' [], StartTag ''i'' [], Data ''text'', EndTag ''b'', EndTag ''i''] init
     = Inr (\<lparr>nonAllowedTagCountInStack = 0,
              output = [''<b>'', ''<i>'', ''text'', ''</b>'', ''</i>''],
              tagStack = [], parseError = True\<rparr>, [])"
    "cleanTag env [StartTag ''b'' [], StartTag ''i'' [], Data ''text'', EndTag ''b'', EndTag ''i'']
     = Inr ''<b><i>text</b></i>''"
    by (simp_all add: handler_defs table_defs pop_unmatched.simps)
  from run pop_unmatched_fields [of tag self] pop_unmatched_tagStack [of tag self]
    pop_unmatched_parseError [of tag self]
  show ?thesis by (simp only: simp_thms)
qed

text \<open>
  C1. Whitelist closure fails for void elements. \<^verbatim>\<open>handle_starttag\<close> tests
  \<^verbatim>\<open>tag not in _allowedTags\<close> only under \<^verbatim>\<open>tag not in _voidElements\<close>, so the start tag of a
  void element that is not allowed neither counts towards suppression nor is held back:
  \<^verbatim>\<open><embed src="x">\<close> is written to the output although \<^verbatim>\<open>embed\<close> is not an allowed tag.
\<close>

theorem void_tag_emitted:
  "cleanTag env [StartTag ''embed'' [(''src'', Some ''x'')]]
     = Inr (''<embed src='' @ dq @ ''x'' @ dq @ ''>'')
   \<and> ''embed'' \<notin> allowedTags"
  by (simp add: handler_defs table_defs pop_unmatched.simps)

text \<open>
  C2. \<^verbatim>\<open>cleanTag\<close> can raise. For \<^verbatim>\<open><a href>text</a>\<close> the tokenizer passes the attribute
  \<^verbatim>\<open>('href', None)\<close>; the name is allowed, the value is kept, and \<^verbatim>\<open>cgi.escape(None)\<close> raises
  \<^verbatim>\<open>AttributeError\<close>.
\<close>

theorem valueless_attribute_raises:
  "cleanTag env [StartTag ''a'' [(''href'', None)], Data ''text'', EndTag ''a'']
     = Inl AttributeError"
  by (simp add: handler_defs table_defs pop_unmatched.simps)

text \<open>
  C5. The filter is not idempotent. Text is written as the tokenizer delivers it, with
  its character references already replaced, and is not escaped again (attribute values
  are). For the markup \<^verbatim>\<open>a &amp;lt; b\<close> the tokenizer delivers the text \<^verbatim>\<open>a &lt; b\<close>, which
  is the output of the first pass; in the second pass it delivers \<^verbatim>\<open>a < b\<close>, and the output
  differs.
\<close>

theorem text_written_unescaped:
  "cleanTag env [Data ''a &lt; b''] = Inr ''a &lt; b''
   \<and> cleanTag env [Data ''a < b''] = Inr ''a < b''"
  by (simp add: handler_defs table_defs pop_unmatched.simps)

subsection \<open>The handlers, field by field\<close>

lemmas eval_defs = handler_defs table_defs pop_unmatched.simps counted_def depth_def
  well_formed_def offline_def startswith_def local_path_def downloadMedia_def download_def



lemma writeData_fields [simp]:
  "nonAllowedTagCountInStack (writeData data self) = nonAllowedTagCountInStack self"
  "tagStack (writeData data self) = tagStack self"
  "parseError (writeData data self) = parseError self"
  by (simp_all add: writeData_def)


lemma push_tag_fields [simp]:
  "nonAllowedTagCountInStack (push_tag tag self)
     = nonAllowedTagCountInStack self + (if counted tag then 1 else 0)"
  "output (push_tag tag self) = output self"
  "tagStack (push_tag tag self) = (if tag \<in> voidElements then tagStack self else tagStack self @ [tag])"
  "parseError (push_tag tag self) = parseError self"
  by (simp_all add: push_tag_def counted_def)

lemma handle_endtag_count [simp]:
  "nonAllowedTagCountInStack (handle_endtag tag self)
     = nonAllowedTagCountInStack self + (if counted tag then - 1 else 0)"
  by (simp add: handle_endtag_def counted_def Let_def)










text \<open>A well-nested run gives back the stack it found and writes nothing under a
  positive counter.\<close>

lemma counted_in_simps [simp]:
  "counted_in [] = 0"
  "counted_in (opened @ [tag]) = counted_in opened + (if counted tag then 1 else 0)"
  by (simp_all add: counted_in_def)







subsection \<open>Suppression\<close>






subsection \<open>Dictionaries and styles\<close>

lemma map_of_setitem: "map_of (setitem k v d) k' = (if k' = k then Some v else map_of d k')"
  by (induction d) auto

lemma map_of_delitem: "map_of (delitem k d) k' = (if k' = k then None else map_of d k')"
  by (induction d) (auto simp: delitem_def)

lemma keys_setitem:
  "map fst (setitem k v d) = (if k \<in> set (map fst d) then map fst d else map fst d @ [k])"
  by (induction d) auto

lemma distinct_setitem: "distinct (map fst d) \<Longrightarrow> distinct (map fst (setitem k v d))"
  by (simp add: keys_setitem)

lemma map_of_fold_setitem:
  "map_of (fold (\<lambda>(k, v) d. setitem k v d) ps d) k
     = (case map_of (rev ps) k of Some v \<Rightarrow> Some v | None \<Rightarrow> map_of d k)"
proof (induction ps arbitrary: d)
  case Nil
  then show ?case by simp
next
  case (Cons p ps)
  obtain k' v' where p: "p = (k', v')" by (cases p)
  show ?case
    by (simp add: p Cons.IH map_of_setitem map_add_def split: option.splits)
qed

lemma distinct_fold_setitem:
  "distinct (map fst d) \<Longrightarrow> distinct (map fst (fold (\<lambda>(k, v) d. setitem k v d) ps d))"
proof (induction ps arbitrary: d)
  case Nil
  then show ?case by simp
next
  case (Cons p ps)
  obtain k' v' where p: "p = (k', v')" by (cases p)
  from Cons.prems have "distinct (map fst (setitem k' v' d))" by (rule distinct_setitem)
  then show ?case
    by (simp add: p Cons.IH)
qed

lemma override_keys_distinct:
  "(tag, forced) \<in> set overrideStyles \<Longrightarrow> distinct (map fst forced)"
  by (auto simp: overrideStyles_def)

lemma override_wins:
  assumes "map_of overrideStyles tag = Some forced" and "(k, v) \<in> set forced"
  shows "map_of (override_styles tag d) k = Some v"
proof -
  have "(tag, forced) \<in> set overrideStyles"
    using assms(1) by (rule map_of_SomeD)
  then have "distinct (map fst (rev forced))"
    by (simp add: override_keys_distinct rev_map [symmetric])
  moreover have "(k, v) \<in> set (rev forced)"
    using assms(2) by simp
  ultimately have "map_of (rev forced) k = Some v"
    by (rule map_of_is_SomeI)
  then show ?thesis
    by (simp add: override_styles_def assms(1) map_of_fold_setitem)
qed

lemma override_styles_distinct:
  "distinct (map fst d) \<Longrightarrow> distinct (map fst (override_styles tag d))"
  by (simp add: override_styles_def distinct_fold_setitem split: option.splits)

lemma style_string_member:
  "(k, v) \<in> set d \<Longrightarrow> \<exists>pre post. style_string d = pre @ k @ '':'' @ v @ '';'' @ post"
proof (induction d)
  case Nil
  then show ?case by simp
next
  case (Cons p d)
  show ?case
  proof (cases "p = (k, v)")
    case True
    then have "style_string (p # d) = [] @ k @ '':'' @ v @ '';'' @ style_string d"
      by (simp add: style_string_def)
    then show ?thesis by blast
  next
    case False
    with Cons obtain pre post where "style_string d = pre @ k @ '':'' @ v @ '';'' @ post"
      by auto
    then have "style_string (p # d)
        = (fst p @ '':'' @ snd p @ '';'' @ pre) @ k @ '':'' @ v @ '';'' @ post"
      by (simp add: style_string_def case_prod_beta)
    then show ?thesis by blast
  qed
qed

lemma styled_attributes_style:
  assumes "map_of (parse_attributes attributes) ''style'' = Some (Some raw)"
    and "override_styles tag (parse_styles raw) \<noteq> []"
  shows "styled_attributes tag attributes
     = Inr (setitem ''style'' (Some (style_string (override_styles tag (parse_styles raw))))
         (parse_attributes attributes))"
  using assms by (simp add: styled_attributes_def Let_def)

text \<open>
  C6. Override precedence. For \<^verbatim>\<open><table style="width:10px;"></table>\<close> the \<^verbatim>\<open>style\<close> written
  holds \<^verbatim>\<open>width:100%\<close> and no \<^verbatim>\<open>10px\<close>. In general, for a tag with an entry in the override
  table and a property \<open>k\<close> that the entry forces to \<open>v\<close>: whatever the style dictionary \<open>d\<close>
  held for \<open>k\<close>, after the overrides it holds \<open>v\<close>; the serialized style contains
  \<^verbatim>\<open>k:v;\<close>; when the keys of \<open>d\<close> are distinct, as those of a parsed style are, no other
  value stands for \<open>k\<close>; and this serialization is the \<^verbatim>\<open>style\<close> attribute of the start tag.
\<close>

theorem override_precedence:
  "cleanTag env [StartTag ''table'' [(''style'', Some ''width:10px;'')], EndTag ''table'']
     = Inr (''<table style='' @ dq @
        ''box-sizing:border-box;width:100%;margin:.5em;border-collapse:collapse;outline:1px solid black;''
        @ dq @ ''></table>'')
   \<and> (\<forall>forced k v. map_of overrideStyles tag = Some forced \<longrightarrow> (k, v) \<in> set forced \<longrightarrow>
         map_of (override_styles tag d) k = Some v
         \<and> (\<exists>pre post. style_string (override_styles tag d) = pre @ k @ '':'' @ v @ '';'' @ post)
         \<and> (distinct (map fst d) \<longrightarrow> (\<forall>v'. (k, v') \<in> set (override_styles tag d) \<longrightarrow> v' = v))
         \<and> (\<forall>raw. map_of (parse_attributes attributes) ''style'' = Some (Some raw) \<longrightarrow>
               (\<exists>attrDict. styled_attributes tag attributes = Inr attrDict
                  \<and> map_of attrDict ''style''
                      = Some (Some (style_string (override_styles tag (parse_styles raw)))))))"
proof (intro conjI allI impI)
  show "cleanTag env [StartTag ''table'' [(''style'', Some ''width:10px;'')], EndTag ''table'']
     = Inr (''<table style='' @ dq @
        ''box-sizing:border-box;width:100%;margin:.5em;border-collapse:collapse;outline:1px solid black;''
        @ dq @ ''></table>'')"
    by (simp add: handler_defs table_defs pop_unmatched.simps)
next
  fix forced k v
  assume f: "map_of overrideStyles tag = Some forced" and kv: "(k, v) \<in> set forced"
  show m: "map_of (override_styles tag d) k = Some v"
    using f kv by (rule override_wins)
  then have "(k, v) \<in> set (override_styles tag d)" by (rule map_of_SomeD)
  then show "\<exists>pre post. style_string (override_styles tag d) = pre @ k @ '':'' @ v @ '';'' @ post"
    by (rule style_string_member)
next
  fix forced k v v'
  assume f: "map_of overrideStyles tag = Some forced" and kv: "(k, v) \<in> set forced"
    and d: "distinct (map fst d)" and v': "(k, v') \<in> set (override_styles tag d)"
  from d have "distinct (map fst (override_styles tag d))" by (rule override_styles_distinct)
  from map_of_is_SomeI [OF this v'] override_wins [OF f kv, of d] show "v' = v" by simp
next
  fix forced k v raw
  assume f: "map_of overrideStyles tag = Some forced" and kv: "(k, v) \<in> set forced"
    and raw: "map_of (parse_attributes attributes) ''style'' = Some (Some raw)"
  have "map_of (override_styles tag (parse_styles raw)) k = Some v"
    using f kv by (rule override_wins)
  then have "override_styles tag (parse_styles raw) \<noteq> []" by auto
  from styled_attributes_style [OF raw this]
  show "\<exists>attrDict. styled_attributes tag attributes = Inr attrDict
      \<and> map_of attrDict ''style'' = Some (Some (style_string (override_styles tag (parse_styles raw))))"
    by (simp add: map_of_setitem)
qed

theorem override_precedence_witness:
  "map_of overrideStyles ''table''
     = Some [(''box-sizing'', ''border-box''), (''width'', ''100%''), (''margin'', ''.5em''),
         (''border-collapse'', ''collapse''), (''outline'', ''1px solid black'')]
   \<and> override_styles ''table'' [(''width'', ''10px''), (''color'', ''red'')]
     = [(''width'', ''100%''), (''color'', ''red''), (''box-sizing'', ''border-box''),
        (''margin'', ''.5em''), (''border-collapse'', ''collapse''), (''outline'', ''1px solid black'')]
   \<and> map_of (override_styles ''table'' [(''width'', ''10px''), (''color'', ''red'')]) ''width''
     = Some ''100%''
   \<and> distinct (map fst [(''width'', ''10px''), (''color'', ''red'')])
   \<and> (''width'', ''10px'') \<notin> set (override_styles ''table'' [(''width'', ''10px''), (''color'', ''red'')])
   \<and> map_of (parse_attributes [(''style'', Some ''color:red;'')]) ''style'' = Some (Some ''color:red;'')
   \<and> styled_attributes ''table'' [(''style'', Some ''color:red;'')]
     = Inr [(''style'', Some
         ''color:red;box-sizing:border-box;width:100%;margin:.5em;border-collapse:collapse;outline:1px solid black;'')]"
proof -
  let ?forced = "[(''box-sizing'', ''border-box''), (''width'', ''100%''), (''margin'', ''.5em''),
         (''border-collapse'', ''collapse''), (''outline'', ''1px solid black'')]"
  let ?d = "[(''width'', ''10px''), (''color'', ''red'')]"
  let ?attributes = "[(''style'', Some ''color:red;'')]"
  have h1: "map_of overrideStyles ''table'' = Some ?forced"
    by (simp add: overrideStyles_def)
  have h2: "(''width'', ''100%'') \<in> set ?forced"
    by simp
  have h3: "distinct (map fst ?d)"
    by simp
  have h4: "map_of (parse_attributes ?attributes) ''style'' = Some (Some ''color:red;'')"
    by (simp add: parse_attributes_def table_defs)
  have e1: "override_styles ''table'' ?d
     = [(''width'', ''100%''), (''color'', ''red''), (''box-sizing'', ''border-box''),
        (''margin'', ''.5em''), (''border-collapse'', ''collapse''), (''outline'', ''1px solid black'')]"
    by (simp add: override_styles_def overrideStyles_def)
  have e2: "styled_attributes ''table'' ?attributes
     = Inr [(''style'', Some
         ''color:red;box-sizing:border-box;width:100%;margin:.5em;border-collapse:collapse;outline:1px solid black;'')]"
    by (simp add: handler_defs table_defs)
  from override_precedence [of offline "''table''" ?d ?attributes] h1 h2
  have "map_of (override_styles ''table'' ?d) ''width'' = Some ''100%''
      \<and> (distinct (map fst ?d) \<longrightarrow>
           (\<forall>v'. (''width'', v') \<in> set (override_styles ''table'' ?d) \<longrightarrow> v' = ''100%''))"
    by blast
  with h3 have "map_of (override_styles ''table'' ?d) ''width'' = Some ''100%''"
    and "(''width'', ''10px'') \<notin> set (override_styles ''table'' ?d)"
    by auto
  with h1 h3 h4 e1 e2 show ?thesis
    by (simp only: simp_thms)
qed

subsection \<open>Media\<close>

lemma styled_attributes_other:
  assumes "styled_attributes tag attributes = Inr attrDict" and "k \<noteq> ''style''"
  shows "map_of attrDict k = map_of (parse_attributes attributes) k"
  using assms
  by (auto simp: styled_attributes_def Let_def map_of_setitem map_of_delitem
      split: option.splits if_splits)

lemma attr_items_member:
  "attr_items attrDict = Inr items \<Longrightarrow> (k, Some v) \<in> set attrDict \<Longrightarrow>
     (k @ ''='' @ dq @ cgi_escape v @ dq) \<in> set items"
  by (induction attrDict arbitrary: items) (auto split: option.splits sum.splits)

lemma unreachable_download:
  assumes "startswith url ''file://'' \<longrightarrow> open_rb env (local_path url) = None"
    and "urlopen env (if startswith url ''file://'' then local_path url else url) = URLError"
  shows "downloadMedia env url = Inr None"
  using assms by (auto simp: downloadMedia_def download_def)

text \<open>
  C8. Graceful media failure. Take an \<^verbatim>\<open>img\<close> start tag whose kept \<^verbatim>\<open>src\<close> is a URL that cannot
  be reached: for a \<^verbatim>\<open>file://\<close> URL the file cannot be read, and \<^verbatim>\<open>urlopen\<close> raises
  \<^verbatim>\<open>URLError\<close>. Then \<^verbatim>\<open>downloadMedia\<close> returns \<^verbatim>\<open>None\<close>; the handler shows the one tooltip
  \<^verbatim>\<open>Failed to download\<close> with the URL; the attribute dictionary is serialized as the style
  step left it, so the tag is written with \<^verbatim>\<open>src\<close> holding the URL (escaped for markup as
  every attribute value is); and the parser state changes by this written tag only, so
  what follows is filtered as it would be after any other \<^verbatim>\<open>img\<close> tag.
\<close>

theorem graceful_media_failure:
  assumes "map_of (parse_attributes attributes) ''src'' = Some (Some url)"
    and "startswith url ''file://'' \<longrightarrow> open_rb env (local_path url) = None"
    and "urlopen env (if startswith url ''file://'' then local_path url else url) = URLError"
  shows "downloadMedia env url = Inr None
    \<and> handle_starttag env ''img'' attributes self =
        (case styled_attributes ''img'' attributes of
           Inl e \<Rightarrow> Inl e
         | Inr attrDict \<Rightarrow>
             (case attrStr attrDict of
                Inl e \<Rightarrow> Inl e
              | Inr s \<Rightarrow> Inr (writeData (''<img'' @ s @ ''>'') self, [''Failed to download '' @ url])))
    \<and> (\<forall>attrDict s. styled_attributes ''img'' attributes = Inr attrDict \<longrightarrow>
          attrStr attrDict = Inr s \<longrightarrow>
          (\<exists>items. s = '' '' @ join '' '' items \<and> (''src='' @ dq @ cgi_escape url @ dq) \<in> set items))"
proof (intro conjI allI impI)
  show dl: "downloadMedia env url = Inr None"
    using assms(2,3) by (rule unreachable_download)
  have cure: "image_cure env ''img'' attrDict = Inr (attrDict, [''Failed to download '' @ url])"
    if "styled_attributes ''img'' attributes = Inr attrDict" for attrDict
  proof -
    have m: "map_of attrDict ''src'' = Some (Some url)"
      using styled_attributes_other [OF that, of "''src''"] assms(1) by simp
    then have "(''src'', Some url) \<in> set attrDict" by (rule map_of_SomeD)
    then have "''src'' \<in> set (keys attrDict)" by (force simp: keys_def)
    with m dl show ?thesis by (simp add: image_cure_def)
  qed
  have ig: "''img'' \<notin> ignoredTags"
    by (simp add: ignoredTags_def)
  have pt: "push_tag ''img'' self = self"
    by (simp add: push_tag_def voidElements_def)
  show "handle_starttag env ''img'' attributes self =
        (case styled_attributes ''img'' attributes of
           Inl e \<Rightarrow> Inl e
         | Inr attrDict \<Rightarrow>
             (case attrStr attrDict of
                Inl e \<Rightarrow> Inl e
              | Inr s \<Rightarrow> Inr (writeData (''<img'' @ s @ ''>'') self, [''Failed to download '' @ url])))"
  proof (cases "styled_attributes ''img'' attributes")
    case (Inl e)
    then show ?thesis
      by (simp add: handle_starttag_def starttag_text_def ig)
  next
    case (Inr attrDict)
    with cure [OF Inr] show ?thesis
      by (simp add: handle_starttag_def starttag_text_def ig pt split: sum.splits)
  qed
next
  fix attrDict s
  assume a: "styled_attributes ''img'' attributes = Inr attrDict" and b: "attrStr attrDict = Inr s"
  have "map_of attrDict ''src'' = Some (Some url)"
    using styled_attributes_other [OF a, of "''src''"] assms(1) by simp
  then have mem: "(''src'', Some url) \<in> set attrDict" by (rule map_of_SomeD)
  then have "attrDict \<noteq> []" by auto
  with b obtain items where i: "attr_items attrDict = Inr items" and s: "s = '' '' @ join '' '' items"
    by (auto simp: attrStr_def split: sum.splits)
  from attr_items_member [OF i mem]
  have "(''src='' @ dq @ cgi_escape url @ dq) \<in> set items"
    by simp
  with s have "s = '' '' @ join '' '' items \<and> (''src='' @ dq @ cgi_escape url @ dq) \<in> set items"
    by (simp only: simp_thms)
  then show "\<exists>items. s = '' '' @ join '' '' items \<and> (''src='' @ dq @ cgi_escape url @ dq) \<in> set items"
    by (rule exI)
qed

theorem graceful_media_failure_witness:
  "map_of (parse_attributes [(''src'', Some ''http://h.invalid/a.png''), (''alt'', Some ''A'')]) ''src''
     = Some (Some ''http://h.invalid/a.png'')
   \<and> \<not> startswith ''http://h.invalid/a.png'' ''file://''
   \<and> urlopen offline ''http://h.invalid/a.png'' = URLError
   \<and> downloadMedia offline ''http://h.invalid/a.png'' = Inr None
   \<and> handle_starttag offline ''img'' [(''src'', Some ''http://h.invalid/a.png''), (''alt'', Some ''A'')] init
       = Inr (init\<lparr>output := [''<img src='' @ dq @ ''http://h.invalid/a.png'' @ dq @ '' alt='' @ dq @ ''A'' @ dq @ ''>'']\<rparr>,
              [''Failed to download http://h.invalid/a.png''])"
proof -
  let ?url = "''http://h.invalid/a.png''"
  let ?attrs = "[(''src'', Some ?url), (''alt'', Some ''A'')]"
  have h1: "map_of (parse_attributes ?attrs) ''src'' = Some (Some ?url)"
    by (simp add: parse_attributes_def table_defs)
  have n: "\<not> startswith ?url ''file://''"
    by (simp add: startswith_def)
  then have h2: "startswith ?url ''file://'' \<longrightarrow> open_rb offline (local_path ?url) = None"
    by simp
  have u: "urlopen offline ?url = URLError"
    by (simp add: offline_def)
  with n have h3: "urlopen offline (if startswith ?url ''file://'' then local_path ?url else ?url) = URLError"
    by simp
  have s: "styled_attributes ''img'' ?attrs = Inr ?attrs"
    by (simp add: eval_defs)
  have a: "attrStr ?attrs = Inr ('' src='' @ dq @ ?url @ dq @ '' alt='' @ dq @ ''A'' @ dq)"
    by (simp add: eval_defs)
  from graceful_media_failure [OF h1 h2 h3, of init] h1 n u s a show ?thesis
    by (simp add: writeData_def init_def)
qed


end
